theory Spec2Isabelle
  imports Main
begin

section \<open>Values, surfaces and the component state\<close>

text \<open>
  The development embeds the surface engine of \<^verbatim>\<open>src/component/Component.js\<close>.
  Methods keep their names; a private method, written with a trailing underscore in the
  source (\<^verbatim>\<open>compareCacheStates_\<close>), loses the underscore here, and the attribute
  \<^verbatim>\<open>id\<close> is the field \<open>componentId\<close>. Where dropping the underscore would clash
  with a hook of the same name (\<^verbatim>\<open>getSurfaceContent_\<close>, \<^verbatim>\<open>getElementContent_\<close>) the
  private method carries a prime.

  Content handed to the engine is \<^verbatim>\<open>undefined\<close>, \<^verbatim>\<open>null\<close>, a string or
  an element. Of an element given as content the code reads its \<^verbatim>\<open>id\<close> and, when it is
  concatenated into markup, its string form. Strings are lists of 8-bit characters, where
  JavaScript has 16-bit code units.
\<close>

record domNode =
  nodeId :: string
  nodeText :: string

datatype jsval = Undefined | Null | Str string | Elem domNode

fun isString :: "jsval \<Rightarrow> bool" where
  "isString (Str s) = True"
| "isString v = False"

fun isDefAndNotNull :: "jsval \<Rightarrow> bool" where
  "isDefAndNotNull Undefined = False"
| "isDefAndNotNull Null = False"
| "isDefAndNotNull v = True"

text \<open>JavaScript truthiness, as used by \<^verbatim>\<open>a || b\<close> and \<^verbatim>\<open>if (a)\<close>.\<close>

fun truthy :: "jsval \<Rightarrow> bool" where
  "truthy Undefined = False"
| "truthy Null = False"
| "truthy (Str s) = (s \<noteq> [])"
| "truthy (Elem e) = True"

definition orElse :: "jsval \<Rightarrow> jsval \<Rightarrow> jsval" where
  "orElse a b = (if truthy a then a else b)"

text \<open>An optional string property of a configuration object: absent, or a string.\<close>

fun truthyStr :: "string option \<Rightarrow> bool" where
  "truthyStr None = False"
| "truthyStr (Some s) = (s \<noteq> [])"

text \<open>String conversion of a value concatenated into markup.\<close>

fun toStr :: "jsval \<Rightarrow> string" where
  "toStr Undefined = ''undefined''"
| "toStr Null = ''null''"
| "toStr (Str s) = s"
| "toStr (Elem e) = nodeText e"

text \<open>
  References to live elements. The document itself is not modelled: an element is named
  by the way the code obtained it.
\<close>

datatype element =
    RootElement
  | FoundById string
  | CreatedElement string string
  | FragmentChild string
  | ContentElement domNode
  | ComponentElement string

record surface =
  cacheState :: int
  componentName :: "string option"
  componentData :: "string option"
  element :: "element option"
  handled :: bool
  renderAttrs :: "string list"
  surfaceElementId :: "string option"

text \<open>The empty configuration object \<^verbatim>\<open>{}\<close>.\<close>

definition emptyConfig :: surface where
  "emptyConfig = \<lparr>cacheState = 0, componentName = None, componentData = None,
     element = None, handled = False, renderAttrs = [], surfaceElementId = None\<rparr>"

section \<open>Cache evaluator\<close>

definition NOT_CACHEABLE :: int where
  "NOT_CACHEABLE = - 1"

definition NOT_INITIALIZED :: int where
  "NOT_INITIALIZED = - 2"

definition compareCacheStates :: "int \<Rightarrow> int \<Rightarrow> bool" where
  "compareCacheStates currentCacheState previousCacheState =
     (currentCacheState \<noteq> NOT_INITIALIZED \<and>
      currentCacheState \<noteq> NOT_CACHEABLE \<and>
      currentCacheState = previousCacheState)"

text \<open>
  Modelled from the spec: \<^verbatim>\<open>string.hashCode\<close> lives in \<^verbatim>\<open>src/string/string.js\<close>,
  which is not part of the sources at hand. The specification describes it as the
  classic polynomial hash \<^verbatim>\<open>h = 31*h + charCode\<close>, truncated to machine integer width;
  the truncation is written out as the remainder modulo \<open>2^32\<close> after every character.
\<close>

definition hashStep :: "int \<Rightarrow> char \<Rightarrow> int" where
  "hashStep h ch = (31 * h + of_char ch) mod 4294967296"

definition hashCode :: "string \<Rightarrow> int" where
  "hashCode val = foldl hashStep 0 val"

text \<open>
  What the host environment and the subclass supply. \<open>attrOrderChange\<close> is
  \<^verbatim>\<open>features.checkAttrOrderChange()\<close>; \<open>browserFormat\<close> is the round trip of
  \<^verbatim>\<open>convertHtmlToBrowserFormat_\<close> through a scratch element; the two tag names are the
  merged static properties; \<open>getElementContent\<close> and \<open>getSurfaceContent\<close> are the
  subclass hooks, taken to be pure (the other hooks, \<^verbatim>\<open>attached\<close>, \<^verbatim>\<open>detached\<close> and
  \<^verbatim>\<open>decorateInternal\<close>, are the empty ones of the base class). Calls into the
  collaborators (the DOM helpers, the events collector, the attribute base class, the
  components collector and the nested instances it holds) are recorded, in order, as
  effects, and are taken to return normally; what the code reads back from the document
  is a function of the effects performed so far. A nested component instance is such a
  collaborator: its own surfaces are its own business, and it is taken not to touch those
  of the component at hand.
\<close>

datatype effect =
    AttachListeners jsval "string option"
  | DetachUnusedListeners
  | DetachAllListeners
  | DomReplace "element option" "element option"
  | DomRemoveChildren element
  | DomAppend element jsval
  | DomAppendChildren element element
  | UpdateElementAttributes element element
  | InsertBefore "string option" "string option"
  | RemoveChild element
  | SyncAttrs
  | AddMissingAttr string
  | CreateComponent string string "string option"
  | UpdateComponent string "string option"
  | SubComponentRender string
  | SubComponentAsSub string bool

record env =
  attrOrderChange :: bool
  browserFormat :: "string \<Rightarrow> string"
  elementTagName :: string
  surfaceTagName :: string
  getElementContent :: jsval
  getSurfaceContent :: "string \<Rightarrow> string \<Rightarrow> jsval"
  compressedOuterHTML :: "effect list \<Rightarrow> element \<Rightarrow> string"
  hasParentNode :: "effect list \<Rightarrow> element \<Rightarrow> bool"
  inDom :: "effect list \<Rightarrow> string \<Rightarrow> bool"
  isEmptyElement :: "effect list \<Rightarrow> element \<Rightarrow> bool"
  fragmentRootId :: "string \<Rightarrow> string"
  componentRegistered :: "string \<Rightarrow> bool"
  subElementExtendedContent :: "string \<Rightarrow> jsval"
  subTagName :: "string \<Rightarrow> string"

definition computeSurfaceCacheState :: "env \<Rightarrow> jsval \<Rightarrow> int" where
  "computeSurfaceCacheState e val =
     (case val of
        Str s \<Rightarrow> hashCode (if attrOrderChange e then browserFormat e s else s)
      | _ \<Rightarrow> NOT_CACHEABLE)"

section \<open>Surface element ids\<close>

definition hasComponentPrefix :: "string \<Rightarrow> string \<Rightarrow> bool" where
  "hasComponentPrefix cid surfaceId = (take (length cid + 1) surfaceId = cid @ ''-'')"

definition prefixSurfaceId :: "string \<Rightarrow> string \<Rightarrow> string" where
  "prefixSurfaceId cid surfaceId = cid @ ''-'' @ surfaceId"

definition getSurfaceElementId :: "string \<Rightarrow> string \<Rightarrow> surface option \<Rightarrow> string" where
  "getSurfaceElementId cid surfaceId opt_surface =
     (let surface = (case opt_surface of None \<Rightarrow> emptyConfig | Some s \<Rightarrow> s) in
      if truthyStr (surfaceElementId surface) then the (surfaceElementId surface)
      else if truthyStr (componentName surface) \<or> hasComponentPrefix cid surfaceId
        then surfaceId
      else prefixSurfaceId cid surfaceId)"

definition getSurfaceId :: "string \<Rightarrow> string \<Rightarrow> surface \<Rightarrow> string" where
  "getSurfaceId cid surfaceElementId' surface =
     (if truthyStr (componentName surface) \<or> \<not> hasComponentPrefix cid surfaceElementId'
        then surfaceElementId'
      else drop (length cid + 1) surfaceElementId')"

section \<open>The component instance and the shared registries\<close>

text \<open>
  One entry of \<^verbatim>\<open>collectedSurfaces_\<close>: the object literal pushed by
  \<^verbatim>\<open>replaceSurfacePlaceholders_\<close>.
\<close>

record collectedData =
  cdCacheContent :: jsval
  cdContent :: jsval
  cdSurfaceElementId :: string

text \<open>
  The fields of the instance, followed by the two process-wide registries it works on
  and by the effects performed so far. \<open>surfaceIds\<close> keeps insertion order, the order in
  which \<^verbatim>\<open>for (var id in this.surfaceIds_)\<close> visits it. \<open>subComponents\<close> is
  \<^verbatim>\<open>ComponentCollector.components\<close>: for each nested instance, whether it was
  rendered.
\<close>

record state =
  componentId :: string
  collectedSurfaces :: "collectedData list"
  components :: "string list"
  decorating :: bool
  elementContent :: jsval
  generatedIdCount :: "string \<Rightarrow> nat option"
  inDocument :: bool
  surfaceIds :: "(string \<times> bool) list"
  surfacesRenderAttrs :: "(string \<times> string list) list"
  wasRendered :: bool
  surfaces :: "string \<Rightarrow> surface option"
  subComponents :: "string \<Rightarrow> bool option"
  effects :: "effect list"

datatype error = AlreadyRendered | TypeError | ComponentNotRegistered

text \<open>
  A call returns a value (\<open>Done\<close>), throws (\<open>Throw\<close>), or, the recursion through
  placeholders being unbounded, does not return within the given number of nested
  expansions (\<open>NoFuel\<close>).
\<close>

datatype 'a outcome = NoFuel | Throw error | Done 'a

definition perform :: "effect \<Rightarrow> state \<Rightarrow> state" where
  "perform ev st = st\<lparr>effects := effects st @ [ev]\<rparr>"

subsection \<open>Registry access\<close>

text \<open>
  Modelled from the spec: the surfaces collector (\<^verbatim>\<open>SurfaceCollector.js\<close>) is not
  among the sources. After section 4.1 of the specification, \<^verbatim>\<open>addSurface(id, config)\<close>
  inserts or overwrites the record stored under the id, \<^verbatim>\<open>getSurface(id)\<close> returns
  the record or nothing, and there is no other side effect: the registry is the map
  \<open>surfaces\<close>, read by application and written by map update. Each key holds a record
  of its own.
\<close>

definition getSurface :: "state \<Rightarrow> string \<Rightarrow> surface option" where
  "getSurface st surfaceId =
     (case surfaces st (getSurfaceElementId (componentId st) surfaceId None) of
        Some surface \<Rightarrow> Some surface
      | None \<Rightarrow> surfaces st surfaceId)"

text \<open>
  The key under which \<open>getSurface\<close> finds its record. An assignment to a property of
  the object that \<^verbatim>\<open>getSurface\<close> returned changes the record stored under that key.
\<close>

definition surfaceKey :: "state \<Rightarrow> string \<Rightarrow> string" where
  "surfaceKey st surfaceId =
     (case surfaces st (getSurfaceElementId (componentId st) surfaceId None) of
        Some surface \<Rightarrow> getSurfaceElementId (componentId st) surfaceId None
      | None \<Rightarrow> surfaceId)"

definition updateSurface :: "state \<Rightarrow> string \<Rightarrow> (surface \<Rightarrow> surface) \<Rightarrow> state" where
  "updateSurface st surfaceId f =
     (case getSurface st surfaceId of
        None \<Rightarrow> st
      | Some surface \<Rightarrow> st\<lparr>surfaces := (surfaces st)(surfaceKey st surfaceId \<mapsto> f surface)\<rparr>)"

fun setKey :: "string \<Rightarrow> bool \<Rightarrow> (string \<times> bool) list \<Rightarrow> (string \<times> bool) list" where
  "setKey k v [] = [(k, v)]"
| "setKey k v ((k', v') # kvs) = (if k = k' then (k', v) # kvs else (k', v') # setKey k v kvs)"

fun addToAttr :: "string \<Rightarrow> string \<Rightarrow> (string \<times> string list) list \<Rightarrow> (string \<times> string list) list" where
  "addToAttr a sid [] = [(a, [sid])]"
| "addToAttr a sid ((a', sids) # rest) =
     (if a = a' then (a', if sid \<in> set sids then sids else sids @ [sid]) # rest
      else (a', sids) # addToAttr a sid rest)"

subsection \<open>Registration\<close>

definition cacheSurfaceContent :: "env \<Rightarrow> state \<Rightarrow> string \<Rightarrow> jsval \<Rightarrow> state outcome" where
  "cacheSurfaceContent e st surfaceElementId' content' =
     (let cacheState' = computeSurfaceCacheState e content' in
      case getSurface st surfaceElementId' of
        None \<Rightarrow> Throw TypeError
      | Some surface \<Rightarrow>
          Done (updateSurface st surfaceElementId' (\<lambda>s. s\<lparr>cacheState := cacheState'\<rparr>)))"

fun cacheSurfaceRenderAttrs :: "state \<Rightarrow> string \<Rightarrow> string list \<Rightarrow> state" where
  "cacheSurfaceRenderAttrs st surfaceElementId' [] = st"
| "cacheSurfaceRenderAttrs st surfaceElementId' (a # attrs) =
     (let st1 = (if map_of (surfacesRenderAttrs st) a = None
                 then perform (AddMissingAttr a) st else st) in
      cacheSurfaceRenderAttrs
        (st1\<lparr>surfacesRenderAttrs := addToAttr a surfaceElementId' (surfacesRenderAttrs st1)\<rparr>)
        surfaceElementId' attrs)"

text \<open>
  Modelled from the spec: the components collector (\<^verbatim>\<open>ComponentCollector.js\<close>) is
  not among the sources. After section 4.2 of the specification, \<^verbatim>\<open>createComponent\<close>
  looks the type name up, constructs and registers the instance, and fails when the name
  is not registered; \<^verbatim>\<open>updateComponent\<close> re-applies a configuration. Both are recorded
  as effects, and a new instance starts unrendered. \<^verbatim>\<open>addSurface\<close> takes a third
  argument, the component configuration, which only supplies initial values of missing
  attributes; it is left out.
\<close>

definition createSubComponent :: "env \<Rightarrow> state \<Rightarrow> string \<Rightarrow> string \<Rightarrow> state outcome" where
  "createSubComponent e st componentName' componentId' =
     (case getSurface st componentId' of
        None \<Rightarrow> Throw TypeError
      | Some surface \<Rightarrow>
          if componentRegistered e componentName' then
            Done ((perform (CreateComponent componentName' componentId' (componentData surface)) st)
              \<lparr>components := (if componentId' \<in> set (components st) then components st
                              else components st @ [componentId']),
               subComponents := (subComponents st)(componentId' \<mapsto> False)\<rparr>)
          else Throw ComponentNotRegistered)"

definition addSurface :: "env \<Rightarrow> state \<Rightarrow> string \<Rightarrow> surface option \<Rightarrow> state outcome" where
  "addSurface e st surfaceId opt_surfaceConfig =
     (let config = (case opt_surfaceConfig of None \<Rightarrow> emptyConfig | Some c \<Rightarrow> c);
          config = config\<lparr>cacheState := NOT_INITIALIZED\<rparr>;
          surfaceElementId' = getSurfaceElementId (componentId st) surfaceId (Some config);
          st1 = st\<lparr>surfaceIds := setKey surfaceElementId' True (surfaceIds st),
                   surfaces := (surfaces st)(surfaceElementId' \<mapsto> config)\<rparr>
      in case (if truthyStr (componentName config)
               then createSubComponent e st1 (the (componentName config)) surfaceElementId'
               else Done st1) of
           Done st2 \<Rightarrow>
             (case getSurface st2 surfaceElementId' of
                None \<Rightarrow> Throw TypeError
              | Some surface \<Rightarrow>
                  Done (cacheSurfaceRenderAttrs st2 surfaceElementId' (renderAttrs surface)))
         | Throw err \<Rightarrow> Throw err
         | NoFuel \<Rightarrow> NoFuel)"

section \<open>Placeholder tokens\<close>

text \<open>
  \<^verbatim>\<open>Component.SURFACE_REGEX\<close> is \<^verbatim>\<open>/\%\%\%\%~s(?:-([^~:]+))?~\%\%\%\%/g\<close>: the opening
  marker, optionally a dash and a non-empty run of characters other than \<^verbatim>\<open>~\<close> and
  \<^verbatim>\<open>:\<close>, and the closing marker. The run is greedy and the closing marker starts with
  a character outside the class, so the run always extends to the first \<^verbatim>\<open>~\<close> or
  \<^verbatim>\<open>:\<close>. \<open>matchSurface\<close> matches at the start of its argument and returns the captured
  id (if the group took part) and what follows the match.
\<close>

definition placeholderOpen :: string where
  "placeholderOpen = ''%%%%~s''"

definition placeholderClose :: string where
  "placeholderClose = ''~%%%%''"

fun stripPrefix :: "string \<Rightarrow> string \<Rightarrow> string option" where
  "stripPrefix [] s = Some s"
| "stripPrefix (p # ps) [] = None"
| "stripPrefix (p # ps) (c # cs) = (if p = c then stripPrefix ps cs else None)"

definition idChar :: "char \<Rightarrow> bool" where
  "idChar c = (c \<noteq> CHR ''~'' \<and> c \<noteq> CHR '':'')"

definition matchSurface :: "string \<Rightarrow> (string option \<times> string) option" where
  "matchSurface s =
     (case stripPrefix placeholderOpen s of
        None \<Rightarrow> None
      | Some r \<Rightarrow>
          (case r of
             [] \<Rightarrow> None
           | c # r' \<Rightarrow>
               if c = CHR ''-'' then
                 (if takeWhile idChar r' = [] then None
                  else (case stripPrefix placeholderClose (dropWhile idChar r') of
                          None \<Rightarrow> None
                        | Some rest \<Rightarrow> Some (Some (takeWhile idChar r'), rest)))
               else
                 (case stripPrefix placeholderClose r of
                    None \<Rightarrow> None
                  | Some rest \<Rightarrow> Some (None, rest))))"

lemma stripPrefix_append: "stripPrefix p s = Some r \<Longrightarrow> s = p @ r"
  by (induction p s rule: stripPrefix.induct) (auto split: if_splits)

lemma matchSurface_shorter: "matchSurface s = Some (i, rest) \<Longrightarrow> length rest < length s"
proof -
  assume m: "matchSurface s = Some (i, rest)"
  then obtain r where r: "stripPrefix placeholderOpen s = Some r"
    by (auto simp: matchSurface_def split: option.splits)
  have s: "length s = length placeholderOpen + length r"
    using stripPrefix_append [OF r] by simp
  have "length rest \<le> length r"
  proof (cases r)
    case Nil
    with m r show ?thesis by (simp add: matchSurface_def)
  next
    case (Cons c r')
    show ?thesis
    proof (cases "c = CHR ''-''")
      case True
      with m r Cons have "stripPrefix placeholderClose (dropWhile idChar r') = Some rest"
        by (auto simp: matchSurface_def split: option.splits if_splits)
      then have "dropWhile idChar r' = placeholderClose @ rest"
        by (rule stripPrefix_append)
      then have "length rest \<le> length (dropWhile idChar r')" by simp
      also have "\<dots> \<le> length r'" by (rule length_dropWhile_le)
      finally show ?thesis using Cons by simp
    next
      case False
      with m r Cons have "stripPrefix placeholderClose r = Some rest"
        by (auto simp: matchSurface_def split: option.splits if_splits)
      then have "r = placeholderClose @ rest" by (rule stripPrefix_append)
      then show ?thesis by simp
    qed
  qed
  with s show ?thesis by (simp add: placeholderOpen_def)
qed

text \<open>
  The global scan: the matches of the expression in a string, left to right and not
  overlapping, with the text between them (one \<open>Text\<close> piece per character that is not
  part of a match).
\<close>

datatype piece = Text string | Placeholder "string option"

function splitPlaceholders :: "string \<Rightarrow> piece list" where
  "splitPlaceholders [] = []"
| "splitPlaceholders (c # cs) =
     (case matchSurface (c # cs) of
        Some (i, rest) \<Rightarrow> Placeholder i # splitPlaceholders rest
      | None \<Rightarrow> Text [c] # splitPlaceholders cs)"
  by pat_completeness auto
termination
  by (relation "measure length") (auto dest: matchSurface_shorter)

fun isPlaceholder :: "piece \<Rightarrow> bool" where
  "isPlaceholder (Placeholder i) = True"
| "isPlaceholder (Text t) = False"

definition hasPlaceholder :: "string \<Rightarrow> bool" where
  "hasPlaceholder s = list_ex isPlaceholder (splitPlaceholders s)"

section \<open>Surface markup\<close>

fun containsStr :: "string \<Rightarrow> string \<Rightarrow> bool" where
  "containsStr pat [] = (pat = [])"
| "containsStr pat (c # cs) = (take (length pat) (c # cs) = pat \<or> containsStr pat cs)"

definition idAttribute :: "string \<Rightarrow> string" where
  "idAttribute ident = '' id='' @ [CHR 0x22] @ ident @ [CHR 0x22]"

text \<open>
  \<^verbatim>\<open>checkHasElementTag_\<close> reads \<^verbatim>\<open>content.id\<close> of content that is not a string, which
  throws for \<^verbatim>\<open>undefined\<close> and \<^verbatim>\<open>null\<close>.
\<close>

definition checkHasElementTag :: "jsval \<Rightarrow> string \<Rightarrow> bool outcome" where
  "checkHasElementTag content' ident =
     (case content' of
        Str s \<Rightarrow> Done (containsStr (idAttribute ident) s)
      | Elem n \<Rightarrow> Done (nodeId n = ident)
      | _ \<Rightarrow> Throw TypeError)"

definition wrapContentIfNecessary :: "jsval \<Rightarrow> string \<Rightarrow> string \<Rightarrow> jsval outcome" where
  "wrapContentIfNecessary content' ident tag =
     (case checkHasElementTag content' ident of
        Done has \<Rightarrow>
          Done (if \<not> has
                then Str (''<'' @ tag @ idAttribute ident @ ''>'' @ toStr content' @ ''</'' @ tag @ ''>'')
                else content')
      | Throw err \<Rightarrow> Throw err
      | NoFuel \<Rightarrow> NoFuel)"

definition getNonComponentSurfaceHtml :: "env \<Rightarrow> string \<Rightarrow> jsval \<Rightarrow> jsval outcome" where
  "getNonComponentSurfaceHtml e surfaceElementId' content' =
     wrapContentIfNecessary content' surfaceElementId' (surfaceTagName e)"

text \<open>
  For a surface backed by a component the markup comes from the nested instance, whose
  id is the surface element id it was created with.
\<close>

definition getSurfaceHtml :: "env \<Rightarrow> state \<Rightarrow> string \<Rightarrow> jsval \<Rightarrow> jsval outcome" where
  "getSurfaceHtml e st surfaceElementId' content' =
     (case getSurface st surfaceElementId' of
        None \<Rightarrow> Throw TypeError
      | Some surface \<Rightarrow>
          if truthyStr (componentName surface) then
            (case subComponents st surfaceElementId' of
               None \<Rightarrow> Throw TypeError
             | Some rendered \<Rightarrow>
                 wrapContentIfNecessary content' surfaceElementId' (subTagName e surfaceElementId'))
          else getNonComponentSurfaceHtml e surfaceElementId' content')"

definition getSurfaceContent' :: "env \<Rightarrow> state \<Rightarrow> string \<Rightarrow> jsval outcome" where
  "getSurfaceContent' e st surfaceElementId' =
     (case getSurface st surfaceElementId' of
        None \<Rightarrow> Throw TypeError
      | Some surface \<Rightarrow>
          if truthyStr (componentName surface) then
            (case subComponents st surfaceElementId' of
               None \<Rightarrow> Throw TypeError
             | Some rendered \<Rightarrow>
                 if rendered then Done (Str [])
                 else Done (subElementExtendedContent e surfaceElementId'))
          else Done (getSurfaceContent e
                       (getSurfaceId (componentId st) surfaceElementId' surface)
                       surfaceElementId'))"

definition getSurfaceElement :: "env \<Rightarrow> state \<Rightarrow> string \<Rightarrow> element option \<times> state" where
  "getSurfaceElement e st surfaceId =
     (case getSurface st surfaceId of
        None \<Rightarrow> (None, st)
      | Some surface \<Rightarrow>
          (case element surface of
             Some el \<Rightarrow> (Some el, st)
           | None \<Rightarrow>
               if truthyStr (componentName surface) then
                 (case subComponents st surfaceId of
                    None \<Rightarrow> (None, st)
                  | Some rendered \<Rightarrow>
                      (Some (ComponentElement surfaceId),
                       updateSurface st surfaceId
                         (\<lambda>s. s\<lparr>element := Some (ComponentElement surfaceId)\<rparr>)))
               else
                 (let surfaceElementId' =
                        getSurfaceElementId (componentId st) surfaceId (Some surface);
                      el = (if inDom e (effects st) surfaceElementId'
                            then FoundById surfaceElementId'
                            else CreatedElement (surfaceTagName e) surfaceElementId')
                  in (Some el, updateSurface st surfaceId (\<lambda>s. s\<lparr>element := Some el\<rparr>)))))"

section \<open>Placeholder surfaces\<close>

function showNat :: "nat \<Rightarrow> string" where
  "showNat n =
     (if n < 10 then [char_of (48 + n)]
      else showNat (n div 10) @ [char_of (48 + n mod 10)])"
  by pat_completeness auto
termination
  by (relation "measure (\<lambda>n. n)") auto

declare showNat.simps [simp del]

definition generateSurfaceElementId :: "state \<Rightarrow> string option \<Rightarrow> string \<times> state" where
  "generateSurfaceElementId st opt_parentSurfaceElementId =
     (let parentElementId =
            (if truthyStr opt_parentSurfaceElementId then the opt_parentSurfaceElementId
             else componentId st);
          count = (case generatedIdCount st parentElementId of None \<Rightarrow> 0 | Some k \<Rightarrow> k) + 1
      in (parentElementId @ ''-s'' @ showNat count,
          st\<lparr>generatedIdCount := (generatedIdCount st)(parentElementId \<mapsto> count)\<rparr>))"

definition createPlaceholderSurface ::
  "env \<Rightarrow> state \<Rightarrow> string option \<Rightarrow> string option \<Rightarrow> (string \<times> state) outcome" where
  "createPlaceholderSurface e st opt_surfaceElementId opt_parentSurfaceElementId =
     (let (surfaceElementId', st1) =
            (case opt_surfaceElementId of
               Some i \<Rightarrow> (i, st)
             | None \<Rightarrow> generateSurfaceElementId st opt_parentSurfaceElementId)
      in case getSurface st1 surfaceElementId' of
           Some surface \<Rightarrow> Done (surfaceElementId', st1)
         | None \<Rightarrow>
             (case addSurface e st1 surfaceElementId'
                     (Some (emptyConfig\<lparr>surfaceElementId := Some surfaceElementId'\<rparr>)) of
                Done st2 \<Rightarrow> Done (surfaceElementId', st2)
              | Throw err \<Rightarrow> Throw err
              | NoFuel \<Rightarrow> NoFuel))"

text \<open>
  \<^verbatim>\<open>replaceSurfacePlaceholders_\<close>. \<open>replaceMatches\<close> is the call of
  \<^verbatim>\<open>content.replace\<close>: it runs the callback on each match in turn and concatenates.
  The callback expands the markup of the surface it found by a nested call; the first
  argument bounds the depth of that nesting.
\<close>

fun replaceSurfacePlaceholders ::
      "nat \<Rightarrow> env \<Rightarrow> state \<Rightarrow> jsval \<Rightarrow> string option \<Rightarrow> (jsval \<times> state) outcome"
  and replaceMatches ::
      "nat \<Rightarrow> env \<Rightarrow> state \<Rightarrow> piece list \<Rightarrow> string option \<Rightarrow> (string \<times> state) outcome"
where
  "replaceSurfacePlaceholders n e st content' opt_surfaceElementId =
     (case content' of
        Str s \<Rightarrow>
          (case replaceMatches n e st (splitPlaceholders s) opt_surfaceElementId of
             Done (out, st') \<Rightarrow> Done (Str out, st')
           | Throw err \<Rightarrow> Throw err
           | NoFuel \<Rightarrow> NoFuel)
      | _ \<Rightarrow> Done (content', st))"
| "replaceMatches n e st [] opt_surfaceElementId = Done ([], st)"
| "replaceMatches n e st (Text t # ps) opt_surfaceElementId =
     (case replaceMatches n e st ps opt_surfaceElementId of
        Done (out, st') \<Rightarrow> Done (t @ out, st')
      | Throw err \<Rightarrow> Throw err
      | NoFuel \<Rightarrow> NoFuel)"
| "replaceMatches 0 e st (Placeholder i # ps) opt_surfaceElementId = NoFuel"
| "replaceMatches (Suc n) e st (Placeholder i # ps) opt_surfaceElementId =
     (case createPlaceholderSurface e st i opt_surfaceElementId of
        Done (ident, st1) \<Rightarrow>
          (case getSurface st1 ident of
             None \<Rightarrow> Throw TypeError
           | Some surface \<Rightarrow>
               (let st2 = updateSurface st1 ident (\<lambda>s. s\<lparr>handled := True\<rparr>) in
                case getSurfaceContent' e st2 ident of
                  Done surfaceContent \<Rightarrow>
                    (case getSurfaceHtml e st2 ident surfaceContent of
                       Done surfaceHtml \<Rightarrow>
                         (case replaceSurfacePlaceholders n e st2 surfaceHtml (Some ident) of
                            Done (expandedHtml, st3) \<Rightarrow>
                              (let st4 = st3\<lparr>collectedSurfaces := collectedSurfaces st3 @
                                     [\<lparr>cdCacheContent = surfaceContent,
                                       cdContent = expandedHtml,
                                       cdSurfaceElementId = ident\<rparr>]\<rparr>
                               in case replaceMatches (Suc n) e st4 ps opt_surfaceElementId of
                                    Done (out, st5) \<Rightarrow> Done (toStr expandedHtml @ out, st5)
                                  | Throw err \<Rightarrow> Throw err
                                  | NoFuel \<Rightarrow> NoFuel)
                          | Throw err \<Rightarrow> Throw err
                          | NoFuel \<Rightarrow> NoFuel)
                     | Throw err \<Rightarrow> Throw err
                     | NoFuel \<Rightarrow> NoFuel)
                | Throw err \<Rightarrow> Throw err
                | NoFuel \<Rightarrow> NoFuel))
      | Throw err \<Rightarrow> Throw err
      | NoFuel \<Rightarrow> NoFuel)"

section \<open>Rendering a surface\<close>

definition renderComponentSurface :: "env \<Rightarrow> state \<Rightarrow> string \<Rightarrow> jsval \<Rightarrow> state outcome" where
  "renderComponentSurface e st surfaceElementId' opt_content =
     (case subComponents st surfaceElementId' of
        None \<Rightarrow> Throw TypeError
      | Some rendered \<Rightarrow>
          if rendered then
            (case getSurface st surfaceElementId' of
               None \<Rightarrow> Throw TypeError
             | Some surface \<Rightarrow>
                 Done (perform (UpdateComponent surfaceElementId' (componentData surface)) st))
          else if truthy opt_content then
            (let el = ComponentElement surfaceElementId';
                 st1 = (if isEmptyElement e (effects st) el
                        then perform (DomAppend el opt_content) st else st);
                 st2 = perform (SubComponentAsSub surfaceElementId' (decorating st1)) st1
             in Done (st2\<lparr>subComponents := (subComponents st2)(surfaceElementId' \<mapsto> True)\<rparr>))
          else
            (let st1 = perform (SubComponentRender surfaceElementId') st
             in Done (st1\<lparr>subComponents := (subComponents st1)(surfaceElementId' \<mapsto> True)\<rparr>)))"

definition replaceSurfaceContent :: "nat \<Rightarrow> env \<Rightarrow> state \<Rightarrow> string \<Rightarrow> jsval \<Rightarrow> state outcome" where
  "replaceSurfaceContent n e st surfaceElementId' content' =
     (let (el, st1) = getSurfaceElement e st surfaceElementId' in
      case replaceSurfacePlaceholders n e st1 content' (Some surfaceElementId') of
        Done (content'', st2) \<Rightarrow>
          (case checkHasElementTag content'' surfaceElementId' of
             Done True \<Rightarrow>
               (case getSurface st2 surfaceElementId' of
                  None \<Rightarrow> Throw TypeError
                | Some surface \<Rightarrow>
                    (let newEl = (case content'' of
                                    Str s \<Rightarrow> Some (FragmentChild s)
                                  | Elem nd \<Rightarrow> Some (ContentElement nd)
                                  | _ \<Rightarrow> None);
                         st3 = updateSurface st2 surfaceElementId' (\<lambda>s. s\<lparr>element := newEl\<rparr>)
                     in case el of
                          None \<Rightarrow> Throw TypeError
                        | Some el' \<Rightarrow>
                            Done (if hasParentNode e (effects st3) el'
                                  then perform (DomReplace el newEl) st3 else st3)))
           | Done False \<Rightarrow>
               (case el of
                  None \<Rightarrow> Throw TypeError
                | Some el' \<Rightarrow>
                    Done (perform (DomAppend el' content'') (perform (DomRemoveChildren el') st2)))
           | Throw err \<Rightarrow> Throw err
           | NoFuel \<Rightarrow> NoFuel)
      | Throw err \<Rightarrow> Throw err
      | NoFuel \<Rightarrow> NoFuel)"

text \<open>
  The caching steps of \<^verbatim>\<open>renderSurfaceContent\<close>, from the check of
  \<^verbatim>\<open>decorating_\<close> to the second re-caching: the value of the local \<^verbatim>\<open>cacheHit\<close> and
  the state they leave.
\<close>

definition cacheAndCompare ::
  "env \<Rightarrow> state \<Rightarrow> string \<Rightarrow> jsval \<Rightarrow> jsval \<Rightarrow> (bool \<times> state) outcome" where
  "cacheAndCompare e st surfaceElementId' content' cacheContent =
     (case (if decorating st then
              (case getSurfaceElement e st surfaceElementId' of
                 (None, st0) \<Rightarrow> Throw TypeError
               | (Some el, st0) \<Rightarrow>
                   cacheSurfaceContent e st0 surfaceElementId'
                     (Str (compressedOuterHTML e (effects st0) el)))
            else Done st) of
        Done st1 \<Rightarrow>
          (case getSurface st1 surfaceElementId' of
             None \<Rightarrow> Throw TypeError
           | Some surface \<Rightarrow>
               (let previousCacheState = cacheState surface in
                case cacheSurfaceContent e st1 surfaceElementId'
                       (if decorating st1 then content' else cacheContent) of
                  Done st2 \<Rightarrow>
                    (case getSurface st2 surfaceElementId' of
                       None \<Rightarrow> Throw TypeError
                     | Some surface' \<Rightarrow>
                         (let cacheHit = compareCacheStates (cacheState surface') previousCacheState in
                          if decorating st2 then
                            (case cacheSurfaceContent e st2 surfaceElementId' cacheContent of
                               Done st3 \<Rightarrow> Done (cacheHit, st3)
                             | Throw err \<Rightarrow> Throw err
                             | NoFuel \<Rightarrow> NoFuel)
                          else Done (cacheHit, st2)))
                | Throw err \<Rightarrow> Throw err
                | NoFuel \<Rightarrow> NoFuel))
      | Throw err \<Rightarrow> Throw err
      | NoFuel \<Rightarrow> NoFuel)"

text \<open>
  \<^verbatim>\<open>renderSurfaceContent\<close> and \<^verbatim>\<open>renderPlaceholderSurfaceContents_\<close>, which call each
  other; \<open>renderMatches\<close> is the call of \<^verbatim>\<open>content.replace\<close> in the latter, which
  throws when the content is not a string.
\<close>

fun renderSurfaceContent ::
      "nat \<Rightarrow> env \<Rightarrow> state \<Rightarrow> string \<Rightarrow> jsval \<Rightarrow> jsval \<Rightarrow> state outcome"
  and renderPlaceholderSurfaceContents ::
      "nat \<Rightarrow> env \<Rightarrow> state \<Rightarrow> jsval \<Rightarrow> string \<Rightarrow> state outcome"
  and renderMatches ::
      "nat \<Rightarrow> env \<Rightarrow> state \<Rightarrow> piece list \<Rightarrow> string \<Rightarrow> state outcome"
where
  "renderSurfaceContent n e st surfaceElementId' opt_content opt_cacheContent =
     (case getSurface st surfaceElementId' of
        None \<Rightarrow> Throw TypeError
      | Some surface \<Rightarrow>
          if truthyStr (componentName surface) then
            renderComponentSurface e st surfaceElementId' opt_content
          else
            (case (if truthy opt_content then Done opt_content
                   else getSurfaceContent' e st surfaceElementId') of
               Done content' \<Rightarrow>
                 if isDefAndNotNull content' then
                   (let cacheContent = orElse opt_cacheContent content' in
                    case cacheAndCompare e st surfaceElementId' content' cacheContent of
                      Done (cacheHit, st1) \<Rightarrow>
                        if cacheHit then
                          renderPlaceholderSurfaceContents n e
                            (if decorating st1
                             then perform (AttachListeners cacheContent (Some surfaceElementId')) st1
                             else st1)
                            content' surfaceElementId'
                        else
                          replaceSurfaceContent n e
                            (perform (AttachListeners cacheContent (Some surfaceElementId')) st1)
                            surfaceElementId' content'
                    | Throw err \<Rightarrow> Throw err
                    | NoFuel \<Rightarrow> NoFuel)
                 else Done st
             | Throw err \<Rightarrow> Throw err
             | NoFuel \<Rightarrow> NoFuel))"
| "renderPlaceholderSurfaceContents n e st content' surfaceElementId' =
     (case content' of
        Str s \<Rightarrow> renderMatches n e st (splitPlaceholders s) surfaceElementId'
      | _ \<Rightarrow> Throw TypeError)"
| "renderMatches n e st [] surfaceElementId' = Done st"
| "renderMatches n e st (Text t # ps) surfaceElementId' =
     renderMatches n e st ps surfaceElementId'"
| "renderMatches 0 e st (Placeholder i # ps) surfaceElementId' = NoFuel"
| "renderMatches (Suc n) e st (Placeholder i # ps) surfaceElementId' =
     (case createPlaceholderSurface e st i (Some surfaceElementId') of
        Done (ident, st1) \<Rightarrow>
          (case renderSurfaceContent n e st1 ident Undefined Undefined of
             Done st2 \<Rightarrow> renderMatches (Suc n) e st2 ps surfaceElementId'
           | Throw err \<Rightarrow> Throw err
           | NoFuel \<Rightarrow> NoFuel)
      | Throw err \<Rightarrow> Throw err
      | NoFuel \<Rightarrow> NoFuel)"

section \<open>Finalizing collected surfaces\<close>

definition updatePlaceholderSurface :: "nat \<Rightarrow> env \<Rightarrow> state \<Rightarrow> collectedData \<Rightarrow> state outcome" where
  "updatePlaceholderSurface n e st collected =
     (let surfaceElementId' = cdSurfaceElementId collected in
      case getSurface st surfaceElementId' of
        None \<Rightarrow> Throw TypeError
      | Some surface \<Rightarrow>
          (let st1 = (if truthyStr (componentName surface) then
                        (let found = (if inDom e (effects st) surfaceElementId'
                                      then Some (FoundById surfaceElementId') else None);
                             (el, st0) = getSurfaceElement e st surfaceElementId'
                         in perform (DomReplace found el) st0)
                      else st)
           in if decorating st1 \<or> truthyStr (componentName surface) then
                renderSurfaceContent n e st1 surfaceElementId' (cdContent collected)
                  (cdCacheContent collected)
              else
                (case cacheSurfaceContent e
                        (updateSurface st1 surfaceElementId' (\<lambda>s. s\<lparr>element := None\<rparr>))
                        surfaceElementId' (cdCacheContent collected) of
                   Done st2 \<Rightarrow>
                     Done (perform (AttachListeners (cdCacheContent collected)
                                      (Some surfaceElementId')) st2)
                 | Throw err \<Rightarrow> Throw err
                 | NoFuel \<Rightarrow> NoFuel)))"

text \<open>
  The loop of \<^verbatim>\<open>updatePlaceholderSurfaces_\<close>: \<open>updateFrom n e st k\<close> runs it from
  \<^verbatim>\<open>i = k - 1\<close> down to \<^verbatim>\<open>0\<close>, reading \<^verbatim>\<open>this.collectedSurfaces_[i]\<close> from the
  list as it is at that moment. An index beyond the list reads \<^verbatim>\<open>undefined\<close>, and the
  property access on it throws.
\<close>

fun updateFrom :: "nat \<Rightarrow> env \<Rightarrow> state \<Rightarrow> nat \<Rightarrow> state outcome" where
  "updateFrom n e st 0 = Done st"
| "updateFrom n e st (Suc i) =
     (if i < length (collectedSurfaces st) then
        (case updatePlaceholderSurface n e st (collectedSurfaces st ! i) of
           Done st1 \<Rightarrow>
             (if i < length (collectedSurfaces st1) then
                (case getSurface st1 (cdSurfaceElementId (collectedSurfaces st1 ! i)) of
                   None \<Rightarrow> Throw TypeError
                 | Some surface \<Rightarrow>
                     updateFrom n e
                       (updateSurface st1 (cdSurfaceElementId (collectedSurfaces st1 ! i))
                          (\<lambda>s. s\<lparr>handled := False\<rparr>))
                       i)
              else Throw TypeError)
         | Throw err \<Rightarrow> Throw err
         | NoFuel \<Rightarrow> NoFuel)
      else Throw TypeError)"

definition updatePlaceholderSurfaces :: "nat \<Rightarrow> env \<Rightarrow> state \<Rightarrow> state outcome" where
  "updatePlaceholderSurfaces n e st =
     (case updateFrom n e st (length (collectedSurfaces st)) of
        Done st1 \<Rightarrow> Done (st1\<lparr>collectedSurfaces := []\<rparr>)
      | Throw err \<Rightarrow> Throw err
      | NoFuel \<Rightarrow> NoFuel)"

fun renderEach :: "nat \<Rightarrow> env \<Rightarrow> state \<Rightarrow> string list \<Rightarrow> state outcome" where
  "renderEach n e st [] = Done st"
| "renderEach n e st (surfaceElementId' # rest) =
     (case getSurface st surfaceElementId' of
        None \<Rightarrow> Throw TypeError
      | Some surface \<Rightarrow>
          (case (if \<not> handled surface
                 then renderSurfaceContent n e st surfaceElementId' Undefined Undefined
                 else Done st) of
             Done st1 \<Rightarrow> renderEach n e st1 rest
           | Throw err \<Rightarrow> Throw err
           | NoFuel \<Rightarrow> NoFuel))"

definition renderSurfacesContent :: "nat \<Rightarrow> env \<Rightarrow> state \<Rightarrow> string list \<Rightarrow> state outcome" where
  "renderSurfacesContent n e st surfaceKeys =
     (case renderEach n e (st\<lparr>generatedIdCount := Map.empty\<rparr>) surfaceKeys of
        Done st1 \<Rightarrow>
          if wasRendered st1 then
            (case updatePlaceholderSurfaces n e st1 of
               Done st2 \<Rightarrow> Done (perform DetachUnusedListeners st2)
             | Throw err \<Rightarrow> Throw err
             | NoFuel \<Rightarrow> NoFuel)
          else Done st1
      | Throw err \<Rightarrow> Throw err
      | NoFuel \<Rightarrow> NoFuel)"

section \<open>Lifecycle\<close>

definition getElementContent' :: "env \<Rightarrow> state \<Rightarrow> jsval \<times> state" where
  "getElementContent' e st =
     (let c = orElse (elementContent st) (getElementContent e)
      in (c, st\<lparr>elementContent := c\<rparr>))"

definition getElementExtendedContent :: "nat \<Rightarrow> env \<Rightarrow> state \<Rightarrow> (jsval \<times> state) outcome" where
  "getElementExtendedContent n e st =
     (let (c, st1) = getElementContent' e st
      in replaceSurfacePlaceholders n e st1 c None)"

definition attachInlineListeners :: "env \<Rightarrow> state \<Rightarrow> state" where
  "attachInlineListeners e st =
     (let (c, st1) = getElementContent' e st
      in (perform (AttachListeners c None) st1)\<lparr>elementContent := Null\<rparr>)"

definition renderContent :: "env \<Rightarrow> state \<Rightarrow> jsval \<Rightarrow> state outcome" where
  "renderContent e st content' =
     (case content' of
        Str s \<Rightarrow>
          Done (if fragmentRootId e s = componentId st
                then perform (DomAppendChildren RootElement (FragmentChild s))
                       (perform (UpdateElementAttributes RootElement (FragmentChild s)) st)
                else perform (DomAppend RootElement content') st)
      | Elem nd \<Rightarrow>
          Done (if nodeId nd = componentId st
                then perform (DomAppendChildren RootElement (ContentElement nd))
                       (perform (UpdateElementAttributes RootElement (ContentElement nd)) st)
                else perform (DomAppend RootElement content') st)
      | _ \<Rightarrow> Throw TypeError)"

definition renderInternal :: "nat \<Rightarrow> env \<Rightarrow> state \<Rightarrow> state outcome" where
  "renderInternal n e st =
     (case getElementExtendedContent n e st of
        Done (content', st1) \<Rightarrow>
          if truthy content' then renderContent e st1 content' else Done st1
      | Throw err \<Rightarrow> Throw err
      | NoFuel \<Rightarrow> NoFuel)"

definition renderElement :: "env \<Rightarrow> state \<Rightarrow> string option \<Rightarrow> string option \<Rightarrow> state" where
  "renderElement e st opt_parentElement opt_siblingElement =
     (if opt_siblingElement \<noteq> None \<or> \<not> hasParentNode e (effects st) RootElement
      then perform (InsertBefore opt_parentElement opt_siblingElement) st
      else st)"

definition attach :: "nat \<Rightarrow> env \<Rightarrow> state \<Rightarrow> string option \<Rightarrow> string option \<Rightarrow> state outcome" where
  "attach n e st opt_parentElement opt_siblingElement =
     (if \<not> inDocument st then
        (let st1 = (renderElement e st opt_parentElement opt_siblingElement)\<lparr>inDocument := True\<rparr>
         in if \<not> wasRendered st1 then updatePlaceholderSurfaces n e st1 else Done st1)
      else Done st)"

definition detach :: "state \<Rightarrow> state" where
  "detach st =
     perform DetachAllListeners
       (if inDocument st then (perform (RemoveChild RootElement) st)\<lparr>inDocument := False\<rparr>
        else st)"

definition render :: "nat \<Rightarrow> env \<Rightarrow> state \<Rightarrow> string option \<Rightarrow> string option \<Rightarrow> state outcome" where
  "render n e st opt_parentElement opt_siblingElement =
     (if wasRendered st then Throw AlreadyRendered
      else
        (case renderInternal n e st of
           Done st1 \<Rightarrow>
             (case renderSurfacesContent n e st1 (map fst (surfaceIds st1)) of
                Done st2 \<Rightarrow>
                  (case attach n e (perform SyncAttrs (attachInlineListeners e st2))
                          opt_parentElement opt_siblingElement of
                     Done st3 \<Rightarrow> Done (st3\<lparr>wasRendered := True\<rparr>)
                   | Throw err \<Rightarrow> Throw err
                   | NoFuel \<Rightarrow> NoFuel)
              | Throw err \<Rightarrow> Throw err
              | NoFuel \<Rightarrow> NoFuel)
         | Throw err \<Rightarrow> Throw err
         | NoFuel \<Rightarrow> NoFuel))"

definition decorate :: "nat \<Rightarrow> env \<Rightarrow> state \<Rightarrow> state outcome" where
  "decorate n e st =
     (if inDocument st then Throw AlreadyRendered
      else
        (let (c, st0) = getElementContent' e (st\<lparr>decorating := True\<rparr>) in
         case replaceSurfacePlaceholders n e st0 c None of
           Done (expanded, st1) \<Rightarrow>
             (case renderSurfacesContent n e st1 (map fst (surfaceIds st1)) of
                Done st2 \<Rightarrow>
                  (case attach n e (perform SyncAttrs (attachInlineListeners e st2)) None None of
                     Done st3 \<Rightarrow> Done (st3\<lparr>decorating := False, wasRendered := True\<rparr>)
                   | Throw err \<Rightarrow> Throw err
                   | NoFuel \<Rightarrow> NoFuel)
              | Throw err \<Rightarrow> Throw err
              | NoFuel \<Rightarrow> NoFuel)
         | Throw err \<Rightarrow> Throw err
         | NoFuel \<Rightarrow> NoFuel))"

section \<open>Basic facts\<close>





subsection \<open>State bookkeeping\<close>

lemma perform_fields [simp]:
  "componentId (perform ev st) = componentId st"
  "collectedSurfaces (perform ev st) = collectedSurfaces st"
  "decorating (perform ev st) = decorating st"
  "inDocument (perform ev st) = inDocument st"
  "wasRendered (perform ev st) = wasRendered st"
  "surfaces (perform ev st) = surfaces st"
  "subComponents (perform ev st) = subComponents st"
  "surfaceIds (perform ev st) = surfaceIds st"
  "generatedIdCount (perform ev st) = generatedIdCount st"
  "effects (perform ev st) = effects st @ [ev]"
  by (simp_all add: perform_def)

lemma getSurface_perform [simp]: "getSurface (perform ev st) i = getSurface st i"
  by (simp add: getSurface_def split: option.splits)

lemma updateSurface_fields [simp]:
  "componentId (updateSurface st i f) = componentId st"
  "collectedSurfaces (updateSurface st i f) = collectedSurfaces st"
  "decorating (updateSurface st i f) = decorating st"
  "inDocument (updateSurface st i f) = inDocument st"
  "wasRendered (updateSurface st i f) = wasRendered st"
  "subComponents (updateSurface st i f) = subComponents st"
  "surfaceIds (updateSurface st i f) = surfaceIds st"
  "generatedIdCount (updateSurface st i f) = generatedIdCount st"
  "effects (updateSurface st i f) = effects st"
  by (simp_all add: updateSurface_def split: option.splits)

lemma getSurface_updateSurface_same:
  "getSurface st i = Some s \<Longrightarrow> getSurface (updateSurface st i f) i = Some (f s)"
  by (auto simp: getSurface_def updateSurface_def surfaceKey_def split: option.splits)

lemma cacheSurfaceContent_Done:
  "getSurface st i = Some s \<Longrightarrow>
   cacheSurfaceContent e st i v =
     Done (updateSurface st i (\<lambda>s. s\<lparr>cacheState := computeSurfaceCacheState e v\<rparr>))"
  by (simp add: cacheSurfaceContent_def)

subsection \<open>The scanner\<close>

fun pieceText :: "piece \<Rightarrow> string" where
  "pieceText (Text t) = t"
| "pieceText (Placeholder None) = placeholderOpen @ placeholderClose"
| "pieceText (Placeholder (Some i)) = placeholderOpen @ ''-'' @ i @ placeholderClose"

lemma matchSurface_text:
  "matchSurface s = Some (i, rest) \<Longrightarrow> s = pieceText (Placeholder i) @ rest"
proof -
  assume m: "matchSurface s = Some (i, rest)"
  then obtain r where r: "stripPrefix placeholderOpen s = Some r"
    by (auto simp: matchSurface_def split: option.splits)
  have s: "s = placeholderOpen @ r"
    using r by (rule stripPrefix_append)
  show ?thesis
  proof (cases r)
    case Nil
    with m r show ?thesis by (simp add: matchSurface_def)
  next
    case (Cons c r')
    show ?thesis
    proof (cases "c = CHR ''-''")
      case True
      with m r Cons have i: "i = Some (takeWhile idChar r')"
        and "stripPrefix placeholderClose (dropWhile idChar r') = Some rest"
        by (auto simp: matchSurface_def split: option.splits if_splits)
      then have "dropWhile idChar r' = placeholderClose @ rest"
        using stripPrefix_append by blast
      then have "r' = takeWhile idChar r' @ placeholderClose @ rest"
        by (metis takeWhile_dropWhile_id)
      with s Cons True i show ?thesis by simp
    next
      case False
      with m r Cons have i: "i = None" and "stripPrefix placeholderClose r = Some rest"
        by (auto simp: matchSurface_def split: option.splits if_splits)
      then have "r = placeholderClose @ rest" using stripPrefix_append by blast
      with s i show ?thesis by simp
    qed
  qed
qed

lemma splitPlaceholders_text: "concat (map pieceText (splitPlaceholders s)) = s"
  by (induction s rule: splitPlaceholders.induct)
     (auto split: option.splits dest: matchSurface_text)

lemma replaceMatches_no_token:
  "\<not> list_ex isPlaceholder ps \<Longrightarrow>
   replaceMatches n e st ps parent = Done (concat (map pieceText ps), st)"
proof (induction ps)
  case Nil
  show ?case by simp
next
  case (Cons p ps)
  then show ?case by (cases p) simp_all
qed

lemma getSurfaceElementId_cacheState [simp]:
  "getSurfaceElementId cid sid (Some (c\<lparr>cacheState := x\<rparr>)) = getSurfaceElementId cid sid (Some c)"
  by (simp add: getSurfaceElementId_def)


lemma hasComponentPrefix_prefixSurfaceId: "hasComponentPrefix cid (prefixSurfaceId cid sid)"
  by (simp add: hasComponentPrefix_def prefixSurfaceId_def)

lemma cacheSurfaceRenderAttrs_fields [simp]:
  "surfaces (cacheSurfaceRenderAttrs st i attrs) = surfaces st"
  "componentId (cacheSurfaceRenderAttrs st i attrs) = componentId st"
  "surfaceIds (cacheSurfaceRenderAttrs st i attrs) = surfaceIds st"
  "decorating (cacheSurfaceRenderAttrs st i attrs) = decorating st"
  "collectedSurfaces (cacheSurfaceRenderAttrs st i attrs) = collectedSurfaces st"
  by (induction st i attrs rule: cacheSurfaceRenderAttrs.induct) (simp_all add: Let_def)





lemma getSurfaceElement_fields:
  "getSurfaceElement e st i = (el, st0) \<Longrightarrow>
   effects st0 = effects st \<and> decorating st0 = decorating st \<and>
   componentId st0 = componentId st \<and> collectedSurfaces st0 = collectedSurfaces st \<and>
   subComponents st0 = subComponents st \<and> surfaceIds st0 = surfaceIds st \<and>
   generatedIdCount st0 = generatedIdCount st"
  by (auto simp: getSurfaceElement_def Let_def split: option.splits if_splits)

lemma getSurfaceElement_surface:
  "getSurfaceElement e st i = (el, st0) \<Longrightarrow> getSurface st i = Some s \<Longrightarrow>
   \<exists>s0. getSurface st0 i = Some s0 \<and> cacheState s0 = cacheState s \<and>
        componentName s0 = componentName s \<and> element s0 = el"
  by (auto simp: getSurfaceElement_def Let_def getSurface_updateSurface_same
           split: option.splits if_splits)


lemma cacheAndCompare_decorate:
  assumes "cacheAndCompare e st i content' cc = Done (hit, st')" and "decorating st"
  shows "\<exists>s el st0. getSurface st i = Some s \<and> getSurfaceElement e st i = (Some el, st0) \<and>
           hit = compareCacheStates (computeSurfaceCacheState e content')
                   (computeSurfaceCacheState e (Str (compressedOuterHTML e (effects st) el))) \<and>
           st' = updateSurface
                   (updateSurface
                      (updateSurface st0 i
                         (\<lambda>s. s\<lparr>cacheState :=
                            computeSurfaceCacheState e (Str (compressedOuterHTML e (effects st) el))\<rparr>))
                      i (\<lambda>s. s\<lparr>cacheState := computeSurfaceCacheState e content'\<rparr>))
                   i (\<lambda>s. s\<lparr>cacheState := computeSurfaceCacheState e cc\<rparr>)"
proof -
  obtain el0 st0 where g: "getSurfaceElement e st i = (el0, st0)" by (cases "getSurfaceElement e st i")
  from assms g obtain el where el: "el0 = Some el"
    by (cases el0) (auto simp: cacheAndCompare_def)
  from assms g el obtain s where s: "getSurface st i = Some s"
    by (cases "getSurface st i") (auto simp: getSurfaceElement_def)
  from getSurfaceElement_surface [OF g s] obtain s0 where s0: "getSurface st0 i = Some s0" by blast
  have f: "effects st0 = effects st" "decorating st0"
    using getSurfaceElement_fields [OF g] assms(2) by simp_all
  show ?thesis
    using assms g el s s0 f
    by (auto simp: cacheAndCompare_def cacheSurfaceContent_def Let_def getSurface_updateSurface_same
             split: option.splits if_splits outcome.splits)
qed

section \<open>What expansion preserves\<close>

text \<open>
  What the expansion of placeholders, and the replacement of a surface's content, leave
  alone: the flags of the instance, the entries already collected, and the cache state
  (and the kind) of every surface already registered.
\<close>

definition preserved :: "state \<Rightarrow> state \<Rightarrow> bool" where
  "preserved st st' =
     (componentId st' = componentId st \<and> decorating st' = decorating st \<and>
      subComponents st' = subComponents st \<and>
      wasRendered st' = wasRendered st \<and> inDocument st' = inDocument st \<and>
      (\<exists>new. collectedSurfaces st' = collectedSurfaces st @ new) \<and>
      (\<forall>k r. surfaces st k = Some r \<longrightarrow>
         (\<exists>r'. surfaces st' k = Some r' \<and> cacheState r' = cacheState r \<and>
               componentName r' = componentName r)))"

lemma preserved_refl [simp]: "preserved st st"
  by (simp add: preserved_def)

lemma preserved_trans: "preserved a b \<Longrightarrow> preserved b c \<Longrightarrow> preserved a c"
  unfolding preserved_def by (elim conjE exE) (simp, metis)

lemma getSurface_surfaceKey:
  "getSurface st i = Some s \<Longrightarrow> surfaces st (surfaceKey st i) = Some s"
  by (auto simp: getSurface_def surfaceKey_def split: option.splits)

lemma preserved_updateSurface:
  "(\<And>s. cacheState (f s) = cacheState s \<and> componentName (f s) = componentName s) \<Longrightarrow>
   preserved st (updateSurface st i f)"
  by (auto simp: preserved_def updateSurface_def split: option.splits
           dest!: getSurface_surfaceKey)

lemma preserved_perform: "preserved st (perform ev st)"
  by (simp add: preserved_def)

lemma preserved_push:
  "preserved st (st\<lparr>collectedSurfaces := collectedSurfaces st @ [c]\<rparr>)"
  by (simp add: preserved_def)

lemma generateSurfaceElementId_preserved:
  "generateSurfaceElementId st p = (i, st1) \<Longrightarrow> preserved st st1"
  by (auto simp: generateSurfaceElementId_def Let_def preserved_def)

lemma getSurface_None_keys:
  "getSurface st i = None \<Longrightarrow>
   surfaces st i = None \<and> surfaces st (getSurfaceElementId (componentId st) i None) = None"
  by (auto simp: getSurface_def split: option.splits)

lemma placeholder_key:
  "getSurfaceElementId cid i (Some (emptyConfig\<lparr>surfaceElementId := Some i\<rparr>)) =
     (if i = [] then getSurfaceElementId cid i None else i)"
  by (simp add: getSurfaceElementId_def emptyConfig_def)

lemma addSurface_placeholder:
  assumes "getSurface st i = None"
  shows "\<exists>st'. addSurface e st i (Some (emptyConfig\<lparr>surfaceElementId := Some i\<rparr>)) = Done st' \<and>
           preserved st st' \<and> getSurface st' i \<noteq> None"
proof -
  let ?cfg = "emptyConfig\<lparr>surfaceElementId := Some i\<rparr>"
  let ?k = "getSurfaceElementId (componentId st) i (Some ?cfg)"
  have k: "surfaces st ?k = None"
    using getSurface_None_keys [OF assms] by (auto simp: placeholder_key)
  have r: "renderAttrs ?cfg = []" "\<not> truthyStr (componentName ?cfg)"
    by (simp_all add: emptyConfig_def)
  let ?st1 = "st\<lparr>surfaceIds := setKey ?k True (surfaceIds st),
                 surfaces := (surfaces st)(?k \<mapsto> ?cfg\<lparr>cacheState := NOT_INITIALIZED\<rparr>)\<rparr>"
  have n: "surfaces st i = None" "surfaces st (getSurfaceElementId (componentId st) i None) = None"
    using getSurface_None_keys [OF assms] by simp_all
  have g: "getSurface ?st1 ?k = Some (?cfg\<lparr>cacheState := NOT_INITIALIZED\<rparr>)"
  proof (cases "i = []")
    case True
    then have "?k = componentId st @ ''-''"
      by (simp add: placeholder_key getSurfaceElementId_def emptyConfig_def
            hasComponentPrefix_def prefixSurfaceId_def)
    then show ?thesis
      by (simp add: getSurface_def getSurfaceElementId_def emptyConfig_def
            hasComponentPrefix_def)
  next
    case False
    then have ki: "?k = i" by (simp add: placeholder_key)
    show ?thesis
      using n unfolding ki
      by (auto simp: getSurface_def split: option.splits)
  qed
  have gi: "getSurface ?st1 i \<noteq> None"
    using n by (auto simp: getSurface_def placeholder_key split: option.splits)
  have a: "addSurface e st i (Some ?cfg) = Done ?st1"
    using r g by (simp add: addSurface_def Let_def)
  have p: "preserved st ?st1"
    using k by (auto simp: preserved_def)
  show ?thesis using a p gi by blast
qed

lemma createPlaceholderSurface_preserved:
  assumes "createPlaceholderSurface e st oi op = Done (i, st1)"
  shows "preserved st st1 \<and> getSurface st1 i \<noteq> None"
proof -
  obtain j st0 where j: "(case oi of Some i \<Rightarrow> (i, st) | None \<Rightarrow> generateSurfaceElementId st op) = (j, st0)"
    by (cases "(case oi of Some i \<Rightarrow> (i, st) | None \<Rightarrow> generateSurfaceElementId st op)")
  then have p0: "preserved st st0"
    by (cases oi) (auto dest: generateSurfaceElementId_preserved)
  show ?thesis
  proof (cases "getSurface st0 j")
    case None
    from addSurface_placeholder [OF None, of e] obtain st' where
      "addSurface e st0 j (Some (emptyConfig\<lparr>surfaceElementId := Some j\<rparr>)) = Done st'"
      "preserved st0 st'" "getSurface st' j \<noteq> None" by blast
    with assms j None p0 show ?thesis
      by (auto simp: createPlaceholderSurface_def intro: preserved_trans)
  next
    case (Some s)
    with assms j p0 show ?thesis
      by (auto simp: createPlaceholderSurface_def)
  qed
qed

lemma expansion_preserved:
  "\<And>out st'. replaceSurfacePlaceholders n e st c p = Done (out, st') \<Longrightarrow> preserved st st'"
  "\<And>out2 st2'. replaceMatches n2 e2 st2 ps p2 = Done (out2, st2') \<Longrightarrow> preserved st2 st2'"
proof (induction n e st c p and n2 e2 st2 ps p2 rule: replaceSurfacePlaceholders_replaceMatches.induct)
  case (1 n e st content' opt)
  then show ?case
    by (cases content') (auto split: outcome.splits)
next
  case (2 n e st opt)
  then show ?case by simp
next
  case (3 n e st t ps opt)
  then show ?case by (auto split: outcome.splits)
next
  case (4 e st i ps opt)
  then show ?case by simp
next
  case (5 n e st i ps opt)
  from "5.prems" obtain ident st1 where c: "createPlaceholderSurface e st i opt = Done (ident, st1)"
    by (auto split: outcome.splits)
  from "5.prems" c obtain surface where s: "getSurface st1 ident = Some surface"
    by (auto split: option.splits)
  define st2 where "st2 = updateSurface st1 ident (\<lambda>s. s\<lparr>handled := True\<rparr>)"
  from "5.prems" c s obtain sc where sc: "getSurfaceContent' e st2 ident = Done sc"
    by (auto simp: st2_def Let_def split: outcome.splits)
  from "5.prems" c s sc obtain html where h: "getSurfaceHtml e st2 ident sc = Done html"
    by (auto simp: st2_def Let_def split: outcome.splits)
  from "5.prems" c s sc h obtain expanded st3 where
    x: "replaceSurfacePlaceholders n e st2 html (Some ident) = Done (expanded, st3)"
    by (auto simp: st2_def Let_def split: outcome.splits)
  define st4 where "st4 = st3\<lparr>collectedSurfaces := collectedSurfaces st3 @
     [\<lparr>cdCacheContent = sc, cdContent = expanded, cdSurfaceElementId = ident\<rparr>]\<rparr>"
  from "5.prems" c s sc h x obtain out' where
    t: "replaceMatches (Suc n) e st4 ps opt = Done (out', st2')"
    by (auto simp: st2_def st4_def Let_def split: outcome.splits)
  have p1: "preserved st st1" using createPlaceholderSurface_preserved [OF c] by simp
  have p2: "preserved st1 st2" unfolding st2_def by (rule preserved_updateSurface) simp
  have p3: "preserved st2 st3"
    by (rule "5.IH"(1) [OF c refl s st2_def sc h x])
  have p4: "preserved st3 st4" unfolding st4_def by (rule preserved_push)
  have p5: "preserved st4 st2'"
    by (rule "5.IH"(2) [OF c refl s st2_def sc h x refl st4_def t])
  show ?case
    using p1 p2 p3 p4 p5 by (blast intro: preserved_trans)
qed

section \<open>The containment forest\<close>






section \<open>Finalization order\<close>


definition grows :: "state \<Rightarrow> state \<Rightarrow> bool" where
  "grows st st' =
     (componentId st' = componentId st \<and> decorating st' = decorating st \<and>
      wasRendered st' = wasRendered st \<and> inDocument st' = inDocument st \<and>
      (\<exists>new. collectedSurfaces st' = collectedSurfaces st @ new))"

lemma grows_refl [simp]: "grows st st"
  by (simp add: grows_def)



lemma grows_perform [simp]: "grows st (perform ev st)"
  by (simp add: grows_def)




lemma getSurfaceElement_preserved: "getSurfaceElement e st i = (el, st0) \<Longrightarrow> preserved st st0"
  by (auto simp: getSurfaceElement_def Let_def split: option.splits if_splits
           intro!: preserved_updateSurface)




lemma replaceSurfaceContent_preserved:
  assumes "replaceSurfaceContent n e st i c = Done st'"
  shows "preserved st st'"
proof -
  obtain el st1 where g: "getSurfaceElement e st i = (el, st1)"
    by (cases "getSurfaceElement e st i")
  from assms g obtain c' st2 where x: "replaceSurfacePlaceholders n e st1 c (Some i) = Done (c', st2)"
    by (auto simp: replaceSurfaceContent_def split: outcome.splits)
  have p1: "preserved st st1" using g by (rule getSurfaceElement_preserved)
  have p2: "preserved st1 st2" using x by (rule expansion_preserved(1))
  have p3: "preserved st2 st'"
    using assms g x
    by (auto simp: replaceSurfaceContent_def Let_def
             split: outcome.splits bool.splits option.splits if_splits
             intro!: preserved_updateSurface preserved_perform
             intro: preserved_trans [OF preserved_updateSurface preserved_perform]
                    preserved_trans [OF preserved_perform preserved_perform])
  show ?thesis using p1 p2 p3 by (blast intro: preserved_trans)
qed





section \<open>Example components\<close>

text \<open>
  A component with id \<open>c\<close> whose content provider nests surface \<open>A\<close> around \<open>B\<close>
  around \<open>C\<close>, in a document that holds none of its elements yet; the same component
  with the two surfaces \<open>header\<close> and \<open>body\<close> registered; and further variations
  used to run the engine on concrete inputs.
\<close>

definition exampleEnv :: env where
  "exampleEnv = \<lparr>attrOrderChange = False, browserFormat = (\<lambda>s. s),
     elementTagName = ''div'', surfaceTagName = ''div'',
     getElementContent = Str ''<b>%%%%~s-A~%%%%</b>'',
     getSurfaceContent = (\<lambda>surfaceId surfaceElementId'.
        if surfaceId = ''A'' then Str ''a%%%%~s-B~%%%%''
        else if surfaceId = ''B'' then Str ''b%%%%~s-C~%%%%''
        else if surfaceId = ''C'' then Str ''c''
        else if surfaceId = ''header'' then Str ''Hi''
        else Undefined),
     compressedOuterHTML = (\<lambda>evs el. []),
     hasParentNode = (\<lambda>evs el. False),
     inDom = (\<lambda>evs i. False),
     isEmptyElement = (\<lambda>evs el. True),
     fragmentRootId = (\<lambda>s. []),
     componentRegistered = (\<lambda>n. False),
     subElementExtendedContent = (\<lambda>i. Undefined),
     subTagName = (\<lambda>i. ''div'')\<rparr>"

definition exampleState :: state where
  "exampleState = \<lparr>componentId = ''c'', collectedSurfaces = [], components = [],
     decorating = False, elementContent = Undefined, generatedIdCount = Map.empty,
     inDocument = False, surfaceIds = [], surfacesRenderAttrs = [],
     wasRendered = False, surfaces = Map.empty, subComponents = Map.empty, effects = []\<rparr>"

definition exampleSurfaces :: state where
  "exampleSurfaces = exampleState
     \<lparr>surfaceIds := [(''c-header'', True), (''c-body'', True)],
      surfaces := [''c-header'' \<mapsto> emptyConfig\<lparr>cacheState := NOT_INITIALIZED\<rparr>,
                   ''c-body'' \<mapsto> emptyConfig\<lparr>cacheState := NOT_INITIALIZED\<rparr>]\<rparr>"


definition headerMarkup :: string where
  "headerMarkup = ''<div'' @ idAttribute ''c-header'' @ ''>Hi</div>''"

definition decoratedEnv :: env where
  "decoratedEnv = exampleEnv
     \<lparr>getElementContent := Undefined,
      getSurfaceContent := (\<lambda>surfaceId surfaceElementId'.
         if surfaceId = ''header'' then Str headerMarkup else Undefined),
      compressedOuterHTML := (\<lambda>evs el.
         if el = FoundById ''c-header'' then headerMarkup else []),
      hasParentNode := (\<lambda>evs el. True),
      inDom := (\<lambda>evs i. True)\<rparr>"

section \<open>Rendering a plain surface\<close>

lemma renderMatches_no_token:
  "\<not> list_ex isPlaceholder ps \<Longrightarrow> renderMatches n e st ps i = Done st"
proof (induction ps)
  case Nil
  show ?case by simp
next
  case (Cons p ps)
  then show ?case by (cases p) simp_all
qed


lemma getSurfaceContent'_plain:
  "getSurface st i = Some s \<Longrightarrow> \<not> truthyStr (componentName s) \<Longrightarrow>
   getSurfaceContent' e st i = Done (getSurfaceContent e (getSurfaceId (componentId st) i s) i)"
  by (simp add: getSurfaceContent'_def)

text \<open>
  \<open>renderSurfaceContent\<close> on a surface that is not backed by a component, once the
  content is resolved and is neither \<^verbatim>\<open>undefined\<close> nor \<^verbatim>\<open>null\<close>.
\<close>

lemma renderSurfaceContent_plain:
  assumes "getSurface st i = Some s" and "\<not> truthyStr (componentName s)"
      and "content' = orElse oc (getSurfaceContent e (getSurfaceId (componentId st) i s) i)"
      and "isDefAndNotNull content'"
      and "cc = orElse occ content'"
  shows "renderSurfaceContent n e st i oc occ =
     (case cacheAndCompare e st i content' cc of
        Done (hit, st1) \<Rightarrow>
          if hit then
            renderPlaceholderSurfaceContents n e
              (if decorating st1 then perform (AttachListeners cc (Some i)) st1 else st1)
              content' i
          else replaceSurfaceContent n e (perform (AttachListeners cc (Some i)) st1) i content'
      | Throw err \<Rightarrow> Throw err
      | NoFuel \<Rightarrow> NoFuel)"
proof -
  have r: "(if truthy oc then Done oc else getSurfaceContent' e st i) = Done content'"
    using assms(1-3) by (simp add: orElse_def getSurfaceContent'_plain)
  show ?thesis
    using assms(1,2,4) r
    by (simp add: Let_def assms(5) [symmetric] del: renderPlaceholderSurfaceContents.simps
             split: outcome.splits)
qed

lemma surfaces_updateSurface_key:
  "getSurface st i = Some s \<Longrightarrow> surfaces (updateSurface st i f) (surfaceKey st i) = Some (f s)"
  by (simp add: updateSurface_def)

lemma surfaceKey_updateSurface:
  "getSurface st i = Some s \<Longrightarrow> surfaceKey (updateSurface st i f) i = surfaceKey st i"
  by (auto simp: updateSurface_def surfaceKey_def getSurface_def split: option.splits)


lemma getSurfaceElement_key:
  "getSurfaceElement e st i = (el, st0) \<Longrightarrow> getSurface st i = Some s \<Longrightarrow>
   surfaceKey st0 i = surfaceKey st i"
  by (auto simp: getSurfaceElement_def Let_def surfaceKey_updateSurface
           split: option.splits if_splits)

lemma preserved_key:
  "preserved st st' \<Longrightarrow> surfaces st k = Some r \<Longrightarrow>
   \<exists>r'. surfaces st' k = Some r' \<and> cacheState r' = cacheState r \<and>
        componentName r' = componentName r"
  by (simp add: preserved_def)


lemma computeSurfaceCacheState_other:
  "\<not> isString v \<Longrightarrow> computeSurfaceCacheState e v = NOT_CACHEABLE"
  by (cases v) (simp_all add: computeSurfaceCacheState_def)



definition cyclicState :: state where
  "cyclicState = exampleState
     \<lparr>surfaceIds := [(''c-S'', True), (''c-C'', True)],
      surfaces := [''c-S'' \<mapsto> emptyConfig\<lparr>cacheState := NOT_INITIALIZED\<rparr>,
                   ''c-C'' \<mapsto> emptyConfig\<lparr>cacheState := NOT_INITIALIZED\<rparr>]\<rparr>"




definition surfaceMarkup :: "string \<Rightarrow> string \<Rightarrow> string" where
  "surfaceMarkup ident inner = ''<div'' @ idAttribute ident @ ''>'' @ inner @ ''</div>''"

definition decoratingCyclicEnv :: env where
  "decoratingCyclicEnv = exampleEnv
     \<lparr>getSurfaceContent := (\<lambda>surfaceId surfaceElementId'.
         if surfaceId = ''S'' then Str ''plain''
         else if surfaceId = ''C'' then Str (surfaceMarkup ''c-C'' ''%%%%~s-c-S~%%%%'')
         else Undefined),
      compressedOuterHTML := (\<lambda>evs el.
         if el = FoundById ''c-S'' then surfaceMarkup ''c-S'' ''%%%%~s-c-C~%%%%''
         else if el = FoundById ''c-C'' then surfaceMarkup ''c-C'' ''%%%%~s-c-S~%%%%''
         else []),
      hasParentNode := (\<lambda>evs el. True),
      inDom := (\<lambda>evs i. True)\<rparr>"



section \<open>What the scan finds\<close>

text \<open>
  The scan finds a placeholder exactly when the string contains an occurrence of the
  token: the opening marker, optionally a dash and a non-empty run of characters other
  than \<^verbatim>\<open>~\<close> and \<^verbatim>\<open>:\<close>, and the closing marker.
\<close>

fun validId :: "string option \<Rightarrow> bool" where
  "validId None = True"
| "validId (Some x) = (x \<noteq> [] \<and> list_all idChar x)"

lemma stripPrefix_self: "stripPrefix p (p @ r) = Some r"
  by (induction p) simp_all

lemma takeWhile_idChar_close:
  "list_all idChar x \<Longrightarrow> takeWhile idChar (x @ placeholderClose @ rest) = x"
  by (induction x) (simp_all add: placeholderClose_def idChar_def)

lemma dropWhile_idChar_close:
  "list_all idChar x \<Longrightarrow> dropWhile idChar (x @ placeholderClose @ rest) = placeholderClose @ rest"
  by (induction x) (simp_all add: placeholderClose_def idChar_def)

lemma matchSurface_complete:
  "validId i \<Longrightarrow> matchSurface (pieceText (Placeholder i) @ rest) = Some (i, rest)"
proof (cases i)
  case None
  have "matchSurface (placeholderOpen @ placeholderClose @ rest) = Some (None, rest)"
    by (simp add: matchSurface_def stripPrefix_self)
       (simp add: placeholderClose_def)
  with None show ?thesis by simp
next
  case (Some x)
  assume "validId i"
  with Some have x: "x \<noteq> []" "list_all idChar x" by simp_all
  have "matchSurface (placeholderOpen @ ''-'' @ x @ placeholderClose @ rest) = Some (Some x, rest)"
    using x
    by (simp add: matchSurface_def stripPrefix_self takeWhile_idChar_close dropWhile_idChar_close)
  with Some show ?thesis by simp
qed

lemma matchSurface_valid: "matchSurface s = Some (i, rest) \<Longrightarrow> validId i"
  by (cases i)
     (auto simp: matchSurface_def list_all_iff split: option.splits list.splits if_splits
           dest: set_takeWhileD)

lemma hasPlaceholder_iff:
  "hasPlaceholder s =
     (\<exists>pre i rest. validId i \<and> s = pre @ pieceText (Placeholder i) @ rest)"
proof
  show "hasPlaceholder s \<Longrightarrow>
          \<exists>pre i rest. validId i \<and> s = pre @ pieceText (Placeholder i) @ rest"
    unfolding hasPlaceholder_def
  proof (induction s rule: splitPlaceholders.induct)
    case 1
    then show ?case by simp
  next
    case (2 c cs)
    show ?case
    proof (cases "matchSurface (c # cs)")
      case None
      with "2.prems" have "list_ex isPlaceholder (splitPlaceholders cs)" by simp
      with "2.IH" None obtain pre i rest where
        "validId i" "cs = pre @ pieceText (Placeholder i) @ rest" by blast
      then have "validId i \<and> c # cs = (c # pre) @ pieceText (Placeholder i) @ rest" by simp
      then show ?thesis by blast
    next
      case (Some m)
      obtain i rest where m: "m = (i, rest)" by (cases m)
      from Some m have "validId i" "c # cs = [] @ pieceText (Placeholder i) @ rest"
        by (auto dest: matchSurface_valid matchSurface_text)
      then show ?thesis by blast
    qed
  qed
next
  assume "\<exists>pre i rest. validId i \<and> s = pre @ pieceText (Placeholder i) @ rest"
  then obtain pre i rest where v: "validId i" and s: "s = pre @ pieceText (Placeholder i) @ rest"
    by blast
  have ne: "pieceText (Placeholder i) @ rest \<noteq> []"
    by (cases i) (simp_all add: placeholderOpen_def)
  have "list_ex isPlaceholder (splitPlaceholders (pre @ pieceText (Placeholder i) @ rest))"
  proof (induction pre)
    case Nil
    from ne obtain c cs where cs: "pieceText (Placeholder i) @ rest = c # cs"
      by (cases "pieceText (Placeholder i) @ rest") simp_all
    from matchSurface_complete [OF v, of rest] show ?case
      by (simp add: cs)
  next
    case (Cons c pre)
    then show ?case
      by (cases "matchSurface (c # pre @ pieceText (Placeholder i) @ rest)") auto
  qed
  then show "hasPlaceholder s" by (simp add: hasPlaceholder_def s)
qed

section \<open>The claims\<close>

text \<open>
  C1. The claim holds for \<open>render\<close>, which tests \<open>wasRendered\<close>; \<open>decorate\<close> tests
  \<open>inDocument\<close> instead. On the example component: after \<open>render\<close> has completed, a
  second \<open>render\<close> throws \<open>AlreadyRendered\<close>, also after \<open>detach\<close>, and so does
  \<open>decorate\<close> while the instance is attached; but after \<open>detach\<close> the call of
  \<open>decorate\<close> does not throw and runs the whole decoration on the rendered instance.
\<close>

theorem decorate_after_render_and_detach:
  "(case render 3 exampleEnv exampleState None None of
      Done st1 \<Rightarrow>
        wasRendered st1 \<and> wasRendered (detach st1) \<and>
        (case render 3 exampleEnv (detach st1) None None of
           Throw AlreadyRendered \<Rightarrow> True | _ \<Rightarrow> False) \<and>
        (case decorate 3 exampleEnv st1 of
           Throw AlreadyRendered \<Rightarrow> True | _ \<Rightarrow> False) \<and>
        (case decorate 3 exampleEnv (detach st1) of
           Done st2 \<Rightarrow> True | _ \<Rightarrow> False)
    | _ \<Rightarrow> False)"
  by code_simp



text \<open>
  C3. \<open>compareCacheStates current previous\<close> is true exactly when neither argument is
  one of the two sentinels and the two are equal. Being a HOL function of its two
  arguments, it is total and deterministic and reads no state.
\<close>

theorem compareCacheStates_iff:
  "compareCacheStates current previous =
     (current \<noteq> NOT_INITIALIZED \<and> current \<noteq> NOT_CACHEABLE \<and>
      previous \<noteq> NOT_INITIALIZED \<and> previous \<noteq> NOT_CACHEABLE \<and>
      current = previous)"
  unfolding compareCacheStates_def by auto




text \<open>
  C5, as the claim states it, fails in its second half. First, in the decoration flow,
  with two surfaces that hold each other as above and markup in the document that
  matches, the call on \<open>S\<close> is a cache hit, revisits \<open>C\<close>, which revisits \<open>S\<close> with the
  provider's content, and the cache state stored for \<open>S\<close> when the call returns is that
  of the provider's content, not of the cache content of the call. Second, an
  \<^verbatim>\<open>opt_cacheContent\<close> that is supplied as the empty string is not used: the state
  stored is that of the content.
\<close>

theorem decorate_cache_state_counterexample:
  "(case renderSurfaceContent 3 decoratingCyclicEnv (cyclicState\<lparr>decorating := True\<rparr>) ''c-S''
          (Str (surfaceMarkup ''c-S'' ''%%%%~s-c-C~%%%%'')) Undefined of
      Done st' \<Rightarrow>
        map_option cacheState (getSurface st' ''c-S'') = Some (hashCode ''plain'') \<and>
        hashCode ''plain'' \<noteq>
          computeSurfaceCacheState decoratingCyclicEnv (Str (surfaceMarkup ''c-S'' ''%%%%~s-c-C~%%%%''))
    | _ \<Rightarrow> False) \<and>
   (case renderSurfaceContent 0 decoratedEnv (exampleSurfaces\<lparr>decorating := True\<rparr>) ''header''
          (Str headerMarkup) (Str []) of
      Done st' \<Rightarrow>
        map_option cacheState (getSurface st' ''header'') = Some (hashCode headerMarkup) \<and>
        hashCode headerMarkup \<noteq> computeSurfaceCacheState decoratedEnv (Str [])
    | _ \<Rightarrow> False)"
  by code_simp

text \<open>
  C5, amended. In the decoration flow, for a surface that is not backed by a component
  and content that is neither \<^verbatim>\<open>undefined\<close> nor \<^verbatim>\<open>null\<close>, the cache hit is decided
  by comparing the cache state of the content before expansion with the cache state of
  the compressed \<^verbatim>\<open>outerHTML\<close> of the surface element, and the hit selects between
  revisiting the placeholders and replacing the content; the caching steps leave the
  cache state of the cache content (\<^verbatim>\<open>opt_cacheContent\<close> when it is truthy, otherwise
  the content) in the surface's record; and that is still the stored state when the call
  returns, provided the call was a cache miss or the content has no placeholder.
\<close>

theorem decorate_cache_decision:
  assumes dec: "decorating st"
      and s: "getSurface st i = Some s" and nc: "\<not> truthyStr (componentName s)"
      and c: "content' = orElse opt_content
                (getSurfaceContent e (getSurfaceId (componentId st) i s) i)"
      and d: "isDefAndNotNull content'"
      and cc: "cacheContent = orElse opt_cacheContent content'"
      and r: "renderSurfaceContent n e st i opt_content opt_cacheContent = Done st'"
  shows "\<exists>el st0 hit st1.
           getSurfaceElement e st i = (Some el, st0) \<and>
           cacheAndCompare e st i content' cacheContent = Done (hit, st1) \<and>
           hit = compareCacheStates (computeSurfaceCacheState e content')
                   (computeSurfaceCacheState e (Str (compressedOuterHTML e (effects st) el))) \<and>
           renderSurfaceContent n e st i opt_content opt_cacheContent =
             (if hit
              then renderPlaceholderSurfaceContents n e
                     (perform (AttachListeners cacheContent (Some i)) st1) content' i
              else replaceSurfaceContent n e
                     (perform (AttachListeners cacheContent (Some i)) st1) i content') \<and>
           map_option cacheState (surfaces st1 (surfaceKey st i)) =
             Some (computeSurfaceCacheState e cacheContent) \<and>
           (\<not> hit \<or> \<not> (\<exists>x. content' = Str x \<and> hasPlaceholder x) \<longrightarrow>
              map_option cacheState (surfaces st' (surfaceKey st i)) =
                Some (computeSurfaceCacheState e cacheContent))"
proof -
  note u = renderSurfaceContent_plain [OF s nc c d cc, of n]
  from r u obtain hit st1 where h: "cacheAndCompare e st i content' cacheContent = Done (hit, st1)"
    by (auto split: outcome.splits)
  from cacheAndCompare_decorate [OF h dec] obtain s' el st0 where
    g: "getSurfaceElement e st i = (Some el, st0)" and
    hv: "hit = compareCacheStates (computeSurfaceCacheState e content')
                 (computeSurfaceCacheState e (Str (compressedOuterHTML e (effects st) el)))" and
    st1: "st1 = updateSurface
                  (updateSurface
                     (updateSurface st0 i
                        (\<lambda>s. s\<lparr>cacheState :=
                           computeSurfaceCacheState e (Str (compressedOuterHTML e (effects st) el))\<rparr>))
                     i (\<lambda>s. s\<lparr>cacheState := computeSurfaceCacheState e content'\<rparr>))
                  i (\<lambda>s. s\<lparr>cacheState := computeSurfaceCacheState e cacheContent\<rparr>)"
    by blast
  from getSurfaceElement_surface [OF g s] obtain s0 where s0: "getSurface st0 i = Some s0" by blast
  have k0: "surfaceKey st0 i = surfaceKey st i" using g s by (rule getSurfaceElement_key)
  define sta where "sta = updateSurface st0 i (\<lambda>s. s\<lparr>cacheState :=
      computeSurfaceCacheState e (Str (compressedOuterHTML e (effects st) el))\<rparr>)"
  define stb where "stb = updateSurface sta i (\<lambda>s. s\<lparr>cacheState := computeSurfaceCacheState e content'\<rparr>)"
  have sa: "getSurface sta i \<noteq> None" "surfaceKey sta i = surfaceKey st i"
    using s0 k0 by (simp_all add: sta_def getSurface_updateSurface_same surfaceKey_updateSurface)
  then obtain ra where ra: "getSurface sta i = Some ra" by blast
  have sb: "getSurface stb i \<noteq> None" "surfaceKey stb i = surfaceKey st i"
    using ra sa by (simp_all add: stb_def getSurface_updateSurface_same surfaceKey_updateSurface)
  then obtain rb where rb: "getSurface stb i = Some rb" by blast
  have st1': "st1 = updateSurface stb i (\<lambda>s. s\<lparr>cacheState := computeSurfaceCacheState e cacheContent\<rparr>)"
    by (simp add: st1 sta_def stb_def)
  have k1: "map_option cacheState (surfaces st1 (surfaceKey st i)) =
              Some (computeSurfaceCacheState e cacheContent)"
    using surfaces_updateSurface_key [OF rb, of "\<lambda>s. s\<lparr>cacheState := computeSurfaceCacheState e cacheContent\<rparr>"]
    by (simp add: st1' sb)
  have d1: "decorating st1"
    using dec getSurfaceElement_fields [OF g] by (simp add: st1)
  have u': "renderSurfaceContent n e st i opt_content opt_cacheContent =
             (if hit
              then renderPlaceholderSurfaceContents n e
                     (perform (AttachListeners cacheContent (Some i)) st1) content' i
              else replaceSurfaceContent n e
                     (perform (AttachListeners cacheContent (Some i)) st1) i content')"
    using u h d1 by simp
  have fin: "map_option cacheState (surfaces st' (surfaceKey st i)) =
               Some (computeSurfaceCacheState e cacheContent)"
    if "\<not> hit \<or> \<not> (\<exists>x. content' = Str x \<and> hasPlaceholder x)"
  proof (cases hit)
    case False
    with r u' have "replaceSurfaceContent n e
        (perform (AttachListeners cacheContent (Some i)) st1) i content' = Done st'"
      by simp
    then have "preserved (perform (AttachListeners cacheContent (Some i)) st1) st'"
      by (rule replaceSurfaceContent_preserved)
    with k1 show ?thesis
      by (auto dest!: preserved_key)
  next
    case True
    with hv have "isString content'"
      using computeSurfaceCacheState_other [of content' e]
      by (auto simp: compareCacheStates_def)
    then obtain x where x: "content' = Str x" by (cases content') simp_all
    with that True have "\<not> hasPlaceholder x" by simp
    then have "renderPlaceholderSurfaceContents n e
        (perform (AttachListeners cacheContent (Some i)) st1) content' i
        = Done (perform (AttachListeners cacheContent (Some i)) st1)"
      by (simp add: x hasPlaceholder_def renderMatches_no_token)
    with r u' True have "st' = perform (AttachListeners cacheContent (Some i)) st1" by simp
    with k1 show ?thesis by simp
  qed
  show ?thesis
    using g h hv u' k1 fin by blast
qed

theorem decorate_cache_decision_witness:
  "(case renderSurfaceContent 0 decoratedEnv (exampleSurfaces\<lparr>decorating := True\<rparr>) ''header''
          Undefined Undefined of
      Done st' \<Rightarrow>
        map_option cacheState (surfaces st' ''c-header'') =
          Some (computeSurfaceCacheState decoratedEnv (Str headerMarkup))
    | _ \<Rightarrow> False)"
proof -
  let ?st = "exampleSurfaces\<lparr>decorating := True\<rparr>"
  let ?cfg = "emptyConfig\<lparr>cacheState := NOT_INITIALIZED\<rparr>"
  have "(case renderSurfaceContent 0 decoratedEnv ?st ''header'' Undefined Undefined of
           Done p \<Rightarrow> True | _ \<Rightarrow> False)"
    by code_simp
  then obtain st' where
    r: "renderSurfaceContent 0 decoratedEnv ?st ''header'' Undefined Undefined = Done st'"
    by (auto split: outcome.splits)
  have dec: "decorating ?st" by simp
  have s: "getSurface ?st ''header'' = Some ?cfg"
    by (simp add: getSurface_def exampleSurfaces_def exampleState_def getSurfaceElementId_def
          emptyConfig_def hasComponentPrefix_def prefixSurfaceId_def)
  have nc: "\<not> truthyStr (componentName ?cfg)" by (simp add: emptyConfig_def)
  have c: "Str headerMarkup = orElse Undefined
             (getSurfaceContent decoratedEnv (getSurfaceId (componentId ?st) ''header'' ?cfg)
                ''header'')"
    by (simp add: orElse_def getSurfaceId_def exampleSurfaces_def exampleState_def
          hasComponentPrefix_def emptyConfig_def decoratedEnv_def exampleEnv_def)
  have d: "isDefAndNotNull (Str headerMarkup)" by simp
  have cc: "Str headerMarkup = orElse Undefined (Str headerMarkup)" by (simp add: orElse_def)
  have nt: "\<not> hasPlaceholder headerMarkup" by code_simp
  have key: "surfaceKey ?st ''header'' = ''c-header''"
    by (simp add: surfaceKey_def exampleSurfaces_def exampleState_def getSurfaceElementId_def
          emptyConfig_def hasComponentPrefix_def prefixSurfaceId_def)
  from decorate_cache_decision [OF dec s nc c d cc r] nt key
  have "map_option cacheState (surfaces st' ''c-header'') =
          Some (computeSurfaceCacheState decoratedEnv (Str headerMarkup))"
    by (auto simp del: renderSurfaceContent.simps)
  with r show ?thesis by (simp del: renderSurfaceContent.simps)
qed

text \<open>
  C6. For content that is not a string, and for a string in which the surface expression
  has no match (by \<open>hasPlaceholder_iff\<close>: which contains no token),
  \<open>replaceSurfacePlaceholders\<close> returns the content as it is and the state as it is,
  whatever the depth bound: no surface is registered and nothing is appended to
  \<open>collectedSurfaces\<close>.
\<close>

theorem replaceSurfacePlaceholders_no_token:
  "\<not> isString content' \<or> (\<exists>s. content' = Str s \<and> \<not> hasPlaceholder s) \<Longrightarrow>
   replaceSurfacePlaceholders n e st content' parent = Done (content', st)"
  by (cases content')
     (auto simp: hasPlaceholder_def replaceMatches_no_token splitPlaceholders_text)

theorem replaceSurfacePlaceholders_no_token_witness:
  "replaceSurfacePlaceholders 0 exampleEnv exampleState (Str ''<b>Hi</b>'') None
     = Done (Str ''<b>Hi</b>'', exampleState) \<and>
   replaceSurfacePlaceholders 0 exampleEnv exampleState
     (Elem \<lparr>nodeId = ''x'', nodeText = ''[object HTMLDivElement]''\<rparr>) (Some ''c-header'')
     = Done (Elem \<lparr>nodeId = ''x'', nodeText = ''[object HTMLDivElement]''\<rparr>, exampleState)"
proof -
  have "\<not> hasPlaceholder ''<b>Hi</b>''" by code_simp
  then show ?thesis
    using replaceSurfacePlaceholders_no_token
      [of "Str ''<b>Hi</b>''" 0 exampleEnv exampleState None]
      replaceSurfacePlaceholders_no_token
      [of "Elem \<lparr>nodeId = ''x'', nodeText = ''[object HTMLDivElement]''\<rparr>" 0 exampleEnv
          exampleState "Some ''c-header''"]
    by simp
qed




text \<open>
  C8, as the claim states it, fails: a surface whose configuration names a component
  (and gives no element id of its own) keeps its id unprefixed, although the id does not
  start with the owner's id.
\<close>

theorem getSurfaceElementId_componentName_counterexample:
  "\<not> truthyStr (surfaceElementId (emptyConfig\<lparr>componentName := Some ''Widget''\<rparr>)) \<and>
   \<not> hasComponentPrefix ''gallery'' ''pictures'' \<and>
   getSurfaceElementId ''gallery'' ''pictures''
     (Some (emptyConfig\<lparr>componentName := Some ''Widget''\<rparr>)) = ''pictures'' \<and>
   getSurfaceElementId ''gallery'' ''pictures''
     (Some (emptyConfig\<lparr>componentName := Some ''Widget''\<rparr>)) \<noteq> ''gallery-pictures''"
  by (simp add: getSurfaceElementId_def emptyConfig_def hasComponentPrefix_def)

text \<open>
  C8, amended. The element id of a surface is the explicit \<open>surfaceElementId\<close> of its
  configuration when that is a non-empty string; otherwise it is the given id unchanged
  when the configuration names a component or the id already starts with the owner's
  id and a dash; otherwise it is the owner's id, a dash and the given id, which then
  carries the owner's prefix.
\<close>

theorem getSurfaceElementId_convention:
  assumes "config = (case opt_surface of None \<Rightarrow> emptyConfig | Some c \<Rightarrow> c)"
      and "r = getSurfaceElementId cid surfaceId opt_surface"
  shows "(truthyStr (surfaceElementId config) \<longrightarrow> Some r = surfaceElementId config) \<and>
         (\<not> truthyStr (surfaceElementId config) \<and>
            (truthyStr (componentName config) \<or> hasComponentPrefix cid surfaceId)
            \<longrightarrow> r = surfaceId) \<and>
         (\<not> truthyStr (surfaceElementId config) \<and> \<not> truthyStr (componentName config) \<and>
            \<not> hasComponentPrefix cid surfaceId
            \<longrightarrow> r = cid @ ''-'' @ surfaceId \<and> hasComponentPrefix cid r)"
  using assms hasComponentPrefix_prefixSurfaceId [of cid surfaceId]
  by (cases "surfaceElementId config")
     (auto simp: getSurfaceElementId_def prefixSurfaceId_def)

theorem getSurfaceElementId_convention_witness:
  "getSurfaceElementId ''gallery'' ''pictures'' None = ''gallery-pictures'' \<and>
   getSurfaceElementId ''gallery'' ''gallery-pictures'' None = ''gallery-pictures'' \<and>
   getSurfaceElementId ''gallery'' ''pictures''
     (Some (emptyConfig\<lparr>surfaceElementId := Some ''main''\<rparr>)) = ''main'' \<and>
   getSurfaceElementId ''gallery'' ''pictures''
     (Some (emptyConfig\<lparr>componentName := Some ''Widget''\<rparr>)) = ''pictures''"
  using getSurfaceElementId_convention [OF refl refl, of None "''gallery''" "''pictures''"]
    getSurfaceElementId_convention [OF refl refl, of None "''gallery''" "''gallery-pictures''"]
    getSurfaceElementId_convention [OF refl refl,
      of "Some (emptyConfig\<lparr>surfaceElementId := Some ''main''\<rparr>)" "''gallery''" "''pictures''"]
    getSurfaceElementId_convention [OF refl refl,
      of "Some (emptyConfig\<lparr>componentName := Some ''Widget''\<rparr>)" "''gallery''" "''pictures''"]
  by (simp add: emptyConfig_def hasComponentPrefix_def)

text \<open>
  C9. For a surface that is not backed by a component, when the content (the argument
  if it is truthy, otherwise what the content provider returns) is \<^verbatim>\<open>undefined\<close> or
  \<^verbatim>\<open>null\<close>, \<open>renderSurfaceContent\<close> returns without throwing and leaves the whole
  state as it was: no cache update, no listener, no change to the document.
\<close>

theorem renderSurfaceContent_no_content:
  assumes "getSurface st i = Some surface"
      and "\<not> truthyStr (componentName surface)"
      and "\<not> isDefAndNotNull
             (orElse opt_content
                (getSurfaceContent e (getSurfaceId (componentId st) i surface) i))"
  shows "renderSurfaceContent n e st i opt_content opt_cacheContent = Done st"
  using assms by (auto simp: getSurfaceContent'_def orElse_def split: if_splits)

theorem renderSurfaceContent_no_content_witness:
  "getSurface exampleSurfaces ''body'' = Some (emptyConfig\<lparr>cacheState := NOT_INITIALIZED\<rparr>) \<and>
   getSurfaceContent exampleEnv ''body'' ''body'' = Undefined \<and>
   renderSurfaceContent 0 exampleEnv exampleSurfaces ''body'' Undefined Undefined
     = Done exampleSurfaces \<and>
   renderSurfaceContent 0 exampleEnv exampleSurfaces ''body'' (Str []) (Str ''key'')
     = Done exampleSurfaces"
proof -
  have g: "getSurface exampleSurfaces ''body'' = Some (emptyConfig\<lparr>cacheState := NOT_INITIALIZED\<rparr>)"
    by (simp add: getSurface_def exampleSurfaces_def exampleState_def getSurfaceElementId_def
          emptyConfig_def hasComponentPrefix_def prefixSurfaceId_def)
  have c: "\<not> truthyStr (componentName (emptyConfig\<lparr>cacheState := NOT_INITIALIZED\<rparr>))"
    by (simp add: emptyConfig_def)
  have i: "getSurfaceId (componentId exampleSurfaces) ''body''
             (emptyConfig\<lparr>cacheState := NOT_INITIALIZED\<rparr>) = ''body''"
    by (simp add: getSurfaceId_def exampleSurfaces_def exampleState_def hasComponentPrefix_def
          emptyConfig_def)
  have p: "getSurfaceContent exampleEnv ''body'' ''body'' = Undefined"
    by (simp add: exampleEnv_def)
  show ?thesis
    using g p
      renderSurfaceContent_no_content [OF g c, of Undefined exampleEnv 0 Undefined]
      renderSurfaceContent_no_content [OF g c, of "Str []" exampleEnv 0 "Str ''key''"]
    by (simp add: i orElse_def)
qed




end
